theory Spec2Isabelle
  imports Complex_Main
begin

section \<open>JavaScript values, errors and observable events\<close>

text \<open>
  The library is JavaScript running inside the k6 load generator. Values that travel
  through it (decoded JSON, correlation values, tokens) are modelled by one datatype.
  Numbers that occur inside JSON documents are taken to be integers; time stamps and
  durations, which the token cache multiplies by \<open>0.8\<close>, are exact reals (the rounding
  of IEEE doubles is not modelled). Objects decoded from JSON are read through
  their own properties. The correlation store is an object literal, and a read of it
  also finds the members it inherits from \<open>Object.prototype\<close>.
\<close>

datatype js =
    JUndefined
  | JNull
  | JBool bool
  | JNum int
  | JStr string
  | JArr "js list"
  | JObj "(string \<times> js) list"

text \<open>What \<open>if (v)\<close> tests.\<close>

fun truthy :: "js \<Rightarrow> bool" where
  "truthy JUndefined = False"
| "truthy JNull = False"
| "truthy (JBool b) = b"
| "truthy (JNum n) = (n \<noteq> 0)"
| "truthy (JStr s) = (s \<noteq> [])"
| "truthy (JArr xs) = True"
| "truthy (JObj kvs) = True"

text \<open>What \<open>v === null || v === undefined\<close> tests.\<close>

fun nullish :: "js \<Rightarrow> bool" where
  "nullish JUndefined = True"
| "nullish JNull = True"
| "nullish v = False"

text \<open>
  Exceptions are values. \<open>TestAborted\<close> is the interrupt raised by k6's
  \<open>exec.test.abort(reason)\<close>, which ends the whole run and never returns to its caller.
\<close>

datatype js_error =
    JsError string
  | TypeError string
  | TestAborted string "js list"

fun signals_abort :: "js_error + 'a \<Rightarrow> bool" where
  "signals_abort (Inl (TestAborted reason args)) = True"
| "signals_abort r = False"

text \<open>
  Console output is recorded as events: the console method, the text of the message
  template and the values interpolated into it, in the order of the template.
\<close>

datatype level = ConsoleLog | ConsoleWarn | ConsoleError

record request =
  req_method :: string
  req_url :: string
  req_body :: js
  req_headers :: "(string \<times> string) list"

datatype event =
    Console level string "js list"
  | HttpRequest request
  | Sleep
  | CheckRun string bool "(string \<times> string) list"

text \<open>A destructuring default \<open>{ name = d } = options\<close>: \<open>d\<close> when the property is absent.\<close>

definition with_default :: "'a \<Rightarrow> 'a option \<Rightarrow> 'a" where
  "with_default d v = (case v of None \<Rightarrow> d | Some x \<Rightarrow> x)"

text \<open>
  A parameter declared \<open>defaultValue = null\<close>: an argument that is \<open>undefined\<close> (or
  left out) is replaced by \<open>null\<close>.
\<close>

definition null_if_undefined :: "js \<Rightarrow> js" where
  "null_if_undefined v = (if v = JUndefined then JNull else v)"



section \<open>Strings, property access and the parts of the JavaScript library the code uses\<close>

definition is_digit :: "char \<Rightarrow> bool" where
  "is_digit c = (c \<in> set ''0123456789'')"

definition is_word_char :: "char \<Rightarrow> bool" where
  "is_word_char c =
     (c \<in> set ''abcdefghijklmnopqrstuvwxyzABCDEFGHIJKLMNOPQRSTUVWXYZ0123456789_'')"

definition digit_val :: "char \<Rightarrow> nat" where
  "digit_val c = length (takeWhile (\<lambda>d. d \<noteq> c) ''0123456789'')"

text \<open>\<open>parseInt\<close> on a string of decimal digits.\<close>

definition parse_nat :: "string \<Rightarrow> nat" where
  "parse_nat ds = foldl (\<lambda>acc c. 10 * acc + digit_val c) 0 ds"

fun show_nat :: "nat \<Rightarrow> string" where
  "show_nat n =
     (if n < 10 then [''0123456789'' ! n] else show_nat (n div 10) @ [''0123456789'' ! (n mod 10)])"

declare show_nat.simps [simp del]

definition show_int :: "int \<Rightarrow> string" where
  "show_int i = (if i < 0 then CHR ''-'' # show_nat (nat (- i)) else show_nat (nat i))"

text \<open>\<open>Array.prototype.join\<close> on strings.\<close>

fun join_with :: "string \<Rightarrow> string list \<Rightarrow> string" where
  "join_with sep [] = []"
| "join_with sep [x] = x"
| "join_with sep (x # y # ys) = x @ sep @ join_with sep (y # ys)"

text \<open>
  The conversion to a string that template literals and \<open>String.prototype.replace\<close>
  apply to a value.
\<close>

fun to_string :: "js \<Rightarrow> string" where
  "to_string JUndefined = ''undefined''"
| "to_string JNull = ''null''"
| "to_string (JBool b) = (if b then ''true'' else ''false'')"
| "to_string (JNum n) = show_int n"
| "to_string (JStr s) = s"
| "to_string (JArr xs) = join_with '','' (map (\<lambda>x. if nullish x then [] else to_string x) xs)"
| "to_string (JObj kvs) = ''[object Object]''"

text \<open>\<open>s.split(sep)\<close> for a one-character separator; the result is never empty.\<close>

fun split_on :: "char \<Rightarrow> string \<Rightarrow> string list" where
  "split_on sep [] = [[]]"
| "split_on sep (c # cs) =
     (if c = sep then [] # split_on sep cs
      else (case split_on sep cs of [] \<Rightarrow> [[c]] | p # ps \<Rightarrow> (c # p) # ps))"

text \<open>
  A property name is an array index when it is the canonical decimal form of an
  integer below \<open>2^32 - 1\<close>.
\<close>

definition is_array_index :: "string \<Rightarrow> bool" where
  "is_array_index k =
     (k \<noteq> [] \<and> list_all is_digit k \<and> (k = ''0'' \<or> hd k \<noteq> CHR ''0'')
      \<and> int (parse_nat k) < 4294967295)"

text \<open>
  The property read \<open>v[k]\<close>. It throws on \<open>null\<close> and \<open>undefined\<close> and yields
  \<open>undefined\<close> for a property the value does not own.
\<close>

fun js_get :: "js \<Rightarrow> string \<Rightarrow> js_error + js" where
  "js_get JUndefined k = Inl (TypeError ''Cannot read properties of undefined'')"
| "js_get JNull k = Inl (TypeError ''Cannot read properties of null'')"
| "js_get (JBool b) k = Inr JUndefined"
| "js_get (JNum n) k = Inr JUndefined"
| "js_get (JStr s) k =
     Inr (if k = ''length'' then JNum (int (length s))
          else if is_array_index k \<and> parse_nat k < length s then JStr [s ! parse_nat k]
          else JUndefined)"
| "js_get (JArr xs) k =
     Inr (if k = ''length'' then JNum (int (length xs))
          else if is_array_index k \<and> parse_nat k < length xs then xs ! parse_nat k
          else JUndefined)"
| "js_get (JObj kvs) k = Inr (case map_of kvs k of None \<Rightarrow> JUndefined | Some v \<Rightarrow> v)"

text \<open>The test \<open>k in v\<close>; it throws when \<open>v\<close> is not an object.\<close>

fun js_in :: "string \<Rightarrow> js \<Rightarrow> js_error + bool" where
  "js_in k (JObj kvs) = Inr (map_of kvs k \<noteq> None)"
| "js_in k (JArr xs) = Inr (k = ''length'' \<or> (is_array_index k \<and> parse_nat k < length xs))"
| "js_in k v = Inl (TypeError ''Cannot use in operator to search for a key in a primitive'')"

text \<open>\<open>Array.isArray(v) ? 'array' : typeof v\<close>\<close>

fun type_name :: "js \<Rightarrow> string" where
  "type_name JUndefined = ''undefined''"
| "type_name JNull = ''object''"
| "type_name (JBool b) = ''boolean''"
| "type_name (JNum n) = ''number''"
| "type_name (JStr s) = ''string''"
| "type_name (JArr xs) = ''array''"
| "type_name (JObj kvs) = ''object''"

text \<open>
  The assignment \<open>obj[k] = v\<close> on an object held as the list \<open>Object.entries\<close>
  enumerates: an existing key keeps its place, a new array index goes among the
  indices in ascending order, ahead of all other keys, and any other new key goes last.
\<close>

definition obj_set :: "(string \<times> 'a) list \<Rightarrow> string \<Rightarrow> 'a \<Rightarrow> (string \<times> 'a) list" where
  "obj_set kvs k v =
     (if map_of kvs k \<noteq> None then map (\<lambda>(k', v'). if k' = k then (k', v) else (k', v')) kvs
      else if is_array_index k then
        takeWhile (\<lambda>(k', v'). is_array_index k' \<and> parse_nat k' < parse_nat k) kvs
        @ [(k, v)]
        @ dropWhile (\<lambda>(k', v'). is_array_index k' \<and> parse_nat k' < parse_nat k) kvs
      else kvs @ [(k, v)])"

definition starts_with :: "string \<Rightarrow> string \<Rightarrow> bool" where
  "starts_with pat s = (take (length pat) s = pat)"

text \<open>
  The leftmost occurrence of \<open>pat\<close> in a string: the text before it and the text
  after it.
\<close>

fun find_first :: "string \<Rightarrow> string \<Rightarrow> (string \<times> string) option" where
  "find_first pat [] = (if pat = [] then Some ([], []) else None)"
| "find_first pat (c # cs) =
     (if starts_with pat (c # cs) then Some ([], drop (length pat) (c # cs))
      else map_option (\<lambda>(b, a). (c # b, a)) (find_first pat cs))"

text \<open>\<open>s.includes(pat)\<close>\<close>

definition str_includes :: "string \<Rightarrow> string \<Rightarrow> bool" where
  "str_includes s pat = (find_first pat s \<noteq> None)"

text \<open>
  The replacement text of \<open>s.replace(pat, repl)\<close> for a string pattern: \<open>$$\<close> is a
  dollar sign, \<open>$&\<close> the matched text, \<open>$`\<close> the text before the match and \<open>$'\<close> the
  text after it; a string pattern has no capture groups, so every other \<open>$\<close> stands
  for itself.
\<close>

fun get_substitution :: "string \<Rightarrow> string \<Rightarrow> string \<Rightarrow> string \<Rightarrow> string" where
  "get_substitution m b a [] = []"
| "get_substitution m b a [c] = [c]"
| "get_substitution m b a (c # d # cs) =
     (if c = CHR ''$'' \<and> d = CHR ''$'' then CHR ''$'' # get_substitution m b a cs
      else if c = CHR ''$'' \<and> d = CHR ''&'' then m @ get_substitution m b a cs
      else if c = CHR ''$'' \<and> d = CHR 0x60 then b @ get_substitution m b a cs
      else if c = CHR ''$'' \<and> d = CHR 0x27 then a @ get_substitution m b a cs
      else c # get_substitution m b a (d # cs))"

text \<open>\<open>s.replace(pat, repl)\<close> with a string pattern: only the leftmost occurrence.\<close>

definition js_replace :: "string \<Rightarrow> string \<Rightarrow> string \<Rightarrow> string" where
  "js_replace s pat repl =
     (case find_first pat s of
        None \<Rightarrow> s
      | Some (b, a) \<Rightarrow> b @ get_substitution pat b a repl @ a)"

text \<open>
  \<open>s.match(/\{([^}]+)\}/g)\<close>: the matches from left to right, each an opening brace,
  one or more characters other than a closing brace, and a closing brace. The empty
  list stands for the \<open>null\<close> that \<open>match\<close> returns when nothing matches.
\<close>

function placeholders :: "string \<Rightarrow> string list" where
  "placeholders [] = []"
| "placeholders (c # cs) =
     (if c = CHR ''{'' \<and> takeWhile (\<lambda>x. x \<noteq> CHR ''}'') cs \<noteq> []
         \<and> dropWhile (\<lambda>x. x \<noteq> CHR ''}'') cs \<noteq> []
      then (CHR ''{'' # takeWhile (\<lambda>x. x \<noteq> CHR ''}'') cs @ ''}'')
           # placeholders (tl (dropWhile (\<lambda>x. x \<noteq> CHR ''}'') cs))
      else placeholders cs)"
  by pat_completeness auto
termination
  by (relation "measure length")
     (auto simp: less_Suc_eq_le intro!: le_trans [OF diff_le_self length_dropWhile_le])

text \<open>
  \<open>part.match(/(\w+)\[(\d+)\]/)\<close>: the leftmost run of word characters that is
  followed by a bracketed decimal number, found anywhere in \<open>part\<close>. The first
  argument is the run of word characters that ends at the current position.
\<close>

fun array_match_from :: "string \<Rightarrow> string \<Rightarrow> (string \<times> nat) option" where
  "array_match_from run [] = None"
| "array_match_from run (c # cs) =
     (if c = CHR ''['' \<and> run \<noteq> [] \<and> takeWhile is_digit cs \<noteq> []
         \<and> starts_with '']'' (dropWhile is_digit cs)
      then Some (run, parse_nat (takeWhile is_digit cs))
      else array_match_from (if is_word_char c then run @ [c] else []) cs)"

definition array_match :: "string \<Rightarrow> (string \<times> nat) option" where
  "array_match part = array_match_from [] part"

text \<open>
  A k6 HTTP response as the library reads it: the status, the body (\<open>null\<close> when the
  request failed or bodies are discarded), what \<open>response.json()\<close> returns (\<open>None\<close>
  when it throws because the body is not JSON) and \<open>timings.duration\<close> in
  milliseconds. Decoding JSON is k6's work and is not modelled.
\<close>

record response =
  status :: int
  body :: "string option"
  json :: "js option"
  duration :: real

text \<open>
  k6's \<open>check(val, sets, tags)\<close>: every predicate is run, each result is recorded
  with the tag, and the call returns whether all of them passed.
\<close>

definition check ::
  "'a \<Rightarrow> (string \<times> ('a \<Rightarrow> bool)) list \<Rightarrow> (string \<times> string) list \<Rightarrow> bool \<times> event list"
  where
  "check val sets tag =
     (list_all (\<lambda>(name, f). f val) sets, map (\<lambda>(name, f). CheckRun name (f val) tag) sets)"


section \<open>CSV data manager: unique rows per virtual user and iteration\<close>

type_synonym row = "(string \<times> string) list"

record unique_options =
  abortOnExhaustion :: "bool option"
  logExhaustion :: "bool option"

definition default_unique_options :: unique_options where
  "default_unique_options = \<lparr>abortOnExhaustion = None, logExhaustion = None\<rparr>"

text \<open>What a call hands back: \<open>null\<close>, \<open>undefined\<close> (a read outside the array) or a row.\<close>

datatype 'r fetched = RetNull | RetUndefined | RetRow 'r

text \<open>\<open>const index = (vuId - 1) * 1000 + iteration\<close>\<close>

definition allocation_index :: "int \<Rightarrow> int \<Rightarrow> int" where
  "allocation_index vuId iteration = (vuId - 1) * 1000 + iteration"

text \<open>
  \<open>getUniqueData(dataArray, vuId, iteration, options)\<close>. A missing array (\<open>null\<close>) is
  \<open>None\<close>. Reading a JavaScript array at a negative index yields \<open>undefined\<close>.
\<close>

definition getUniqueData ::
  "row list option \<Rightarrow> int \<Rightarrow> int \<Rightarrow> unique_options \<Rightarrow> (js_error + row fetched) \<times> event list" where
  "getUniqueData dataArray vuId iteration options =
     (let abort = with_default True (abortOnExhaustion options);
          logx = with_default True (logExhaustion options)
      in if dataArray = None \<or> dataArray = Some [] then
           (if abort then Inl (TestAborted ''CSV data array is empty'' []) else Inr RetNull,
            if logx then [Console ConsoleError ''[DATA] Data array is empty!'' []] else [])
         else
           let d = with_default [] dataArray;
               index = allocation_index vuId iteration
           in if index \<ge> int (length d) then
                (if abort
                 then Inl (TestAborted ''CSV data exhausted at VU {vuId}, Iteration {iteration}''
                             [JNum vuId, JNum iteration])
                 else Inr RetNull,
                 if logx
                 then [Console ConsoleError
                         ''[DATA] Data exhausted! VU {vuId}, Iter {iteration}, Index {index} exceeds {length} records''
                         [JNum vuId, JNum iteration, JNum index, JNum (int (length d))]]
                 else [])
              else if index < 0 then (Inr RetUndefined, [])
              else (Inr (RetRow (d ! nat index)), []))"


section \<open>Token manager: one cached token, refreshed at 80 percent of its lifetime\<close>

text \<open>The argument of \<open>initTokenManager\<close>; an absent property is \<open>None\<close>.\<close>

record token_params =
  p_url :: "string option"
  p_username :: "string option"
  p_password :: "string option"
  p_expirySeconds :: "real option"
  p_method :: "string option"
  p_bodyTemplate :: "js option"
  p_tokenPath :: "string option"
  p_headers :: "(string \<times> string) list option"

text \<open>
  \<open>tokenCache.config\<close>, with the defaults of the destructuring filled in; the field
  \<open>http_method\<close> is the property \<open>method\<close>.
\<close>

record token_config =
  url :: string
  username :: string
  password :: string
  expirySeconds :: real
  http_method :: string
  bodyTemplate :: js
  tokenPath :: string
  headers :: "(string \<times> string) list"

record token_cache =
  token :: js
  expiresAt :: "real option"
  generatedAt :: "real option"
  config :: "token_config option"

text \<open>The module variables \<open>tokenCache\<close> and \<open>refreshLock\<close>.\<close>

record tm_state =
  tokenCache :: token_cache
  refreshLock :: bool

definition initial_tm_state :: tm_state where
  "initial_tm_state =
     \<lparr>tokenCache = \<lparr>token = JNull, expiresAt = None, generatedAt = None, config = None\<rparr>,
      refreshLock = False\<rparr>"

text \<open>What \<open>initTokenManager\<close> returns and k6 hands to \<open>getToken\<close> as \<open>data\<close>.\<close>

record setup_data =
  tokenManager :: "token_cache option"
  timestamp :: real

text \<open>\<open>!s\<close> for a string that may be absent.\<close>

definition missing :: "string option \<Rightarrow> bool" where
  "missing s = (s = None \<or> s = Some [])"

text \<open>The loop \<open>for (const part of pathParts) value = value[part]\<close>.\<close>

fun walk_path :: "js \<Rightarrow> string list \<Rightarrow> js_error + js" where
  "walk_path v [] = Inr v"
| "walk_path v (part # parts) =
     (case js_get v part of Inl e \<Rightarrow> Inl e | Inr v' \<Rightarrow> walk_path v' parts)"

text \<open>
  Decoding the response and following \<open>tokenPath\<close> through it, as both the check
  \<open>'token in response'\<close> and the extraction do inside their \<open>try\<close> blocks.
\<close>

definition read_token :: "token_config \<Rightarrow> response \<Rightarrow> js_error + js" where
  "read_token cfg r =
     (case json r of
        None \<Rightarrow> Inl (JsError ''cannot parse the body as JSON'')
      | Some j \<Rightarrow> walk_path j (split_on CHR ''.'' (tokenPath cfg)))"

text \<open>The check \<open>'token in response'\<close>, whose \<open>catch\<close> turns every exception into false.\<close>

definition token_in_response :: "token_config \<Rightarrow> response \<Rightarrow> bool" where
  "token_in_response cfg r =
     (case read_token cfg r of
        Inl e \<Rightarrow> False
      | Inr v \<Rightarrow> v \<noteq> JUndefined \<and> v \<noteq> JNull)"

text \<open>
  \<open>new Date(t).toISOString()\<close> throws a \<open>RangeError\<close> outside the range of dates.
\<close>

definition valid_date :: "real \<Rightarrow> bool" where
  "valid_date t = (\<bar>t\<bar> \<le> 8640000000000000)"

text \<open>
  The request that \<open>generateToken\<close> sends: the body template or else the
  credentials, to be serialised as JSON, and the configured headers laid over the
  content type.
\<close>

definition token_request :: "token_config \<Rightarrow> request" where
  "token_request cfg =
     \<lparr>req_method = http_method cfg,
      req_url = url cfg,
      req_body = (if truthy (bodyTemplate cfg) then bodyTemplate cfg
                  else JObj [(''username'', JStr (username cfg)),
                             (''password'', JStr (password cfg))]),
      req_headers = fold (\<lambda>(k, v) hs. obj_set hs k v) (headers cfg)
                      [(''Content-Type'', ''application/json'')]\<rparr>"

text \<open>
  \<open>generateToken()\<close>. The HTTP client is the function \<open>http\<close>; \<open>now\<close> is what
  \<open>Date.now()\<close> returns when the cache is updated. The result is the token or
  \<open>null\<close>, or the exception that leaves the function. The message that reports a
  failed generation reads \<open>res.body.substring(0, 200)\<close> outside any \<open>try\<close>. The
  message that reports a new token formats \<open>expiresAt\<close> as a date inside the \<open>try\<close>,
  after the cache has been updated.
\<close>

definition generateToken ::
  "(request \<Rightarrow> response) \<Rightarrow> real \<Rightarrow> token_cache \<Rightarrow> (js_error + js) \<times> token_cache \<times> event list" where
  "generateToken http now c =
     (case config c of
        None \<Rightarrow> (Inl (TypeError ''Cannot read properties of null (reading url)''), c, [])
      | Some cfg \<Rightarrow>
          let res = http (token_request cfg);
              (success, checked) =
                 check res
                   [(''token generation successful'', \<lambda>r. status r = 200 \<or> status r = 201),
                    (''token in response'', token_in_response cfg)] [];
              ev = [Console ConsoleLog ''[TOKEN] Generating new token from {url}...''
                      [JStr (url cfg)], HttpRequest (token_request cfg)] @ checked
          in if \<not> success then
               (case body res of
                  None \<Rightarrow>
                    (Inl (TypeError ''Cannot read properties of null (reading substring)''), c, ev)
                | Some b \<Rightarrow>
                    (Inr JNull, c,
                     ev @ [Console ConsoleError
                             ''[TOKEN] Generation failed - Status: {status}, Body: {body}''
                             [JNum (status res), JStr (take 200 b)]]))
             else
               (case read_token cfg res of
                  Inl e \<Rightarrow>
                    (Inr JNull, c,
                     ev @ [Console ConsoleError
                             ''[TOKEN] Error parsing token response: {message}'' []])
                | Inr tok \<Rightarrow>
                    if \<not> truthy tok then
                      (Inr JNull, c,
                       ev @ [Console ConsoleError ''[TOKEN] Token not found in response'' []])
                    else
                      let c' = c\<lparr>token := tok, generatedAt := Some now,
                                 expiresAt := Some (now + expirySeconds cfg * 1000)\<rparr>
                      in if valid_date (now + expirySeconds cfg * 1000) then
                           (Inr tok, c',
                            ev @ [Console ConsoleLog
                                    ''[TOKEN] New token generated (valid until {expiresAt})'' []])
                         else
                           (Inr JNull, c',
                            ev @ [Console ConsoleError
                                    ''[TOKEN] Error parsing token response: {message}'' []])))"

text \<open>
  \<open>initTokenManager(config)\<close>; \<open>now\<close> is the clock at the generation and \<open>now'\<close> the
  clock at the return.
\<close>

definition initTokenManager ::
  "(request \<Rightarrow> response) \<Rightarrow> real \<Rightarrow> real \<Rightarrow> token_params \<Rightarrow> tm_state
     \<Rightarrow> (js_error + setup_data) \<times> tm_state \<times> event list" where
  "initTokenManager http now now' params st =
     (let ev0 = [Console ConsoleLog ''=== Token Manager Initialization ==='' []]
      in if missing (p_url params) then (Inl (JsError ''Token URL is required''), st, ev0)
         else if missing (p_username params) \<or> missing (p_password params) then
           (Inl (JsError ''Username and password are required''), st, ev0)
         else
           let cfg = \<lparr>url = with_default [] (p_url params),
                      username = with_default [] (p_username params),
                      password = with_default [] (p_password params),
                      expirySeconds = with_default 600 (p_expirySeconds params),
                      http_method = with_default ''POST'' (p_method params),
                      bodyTemplate = with_default JNull (p_bodyTemplate params),
                      tokenPath = with_default ''access_token'' (p_tokenPath params),
                      headers = with_default [] (p_headers params)\<rparr>;
               (r, c, ev) = generateToken http now ((tokenCache st)\<lparr>config := Some cfg\<rparr>)
           in case r of
                Inl e \<Rightarrow> (Inl e, st\<lparr>tokenCache := c\<rparr>, ev0 @ ev)
              | Inr tok \<Rightarrow>
                  if \<not> truthy tok then
                    (Inl (JsError ''Failed to generate initial token''),
                     st\<lparr>tokenCache := c\<rparr>, ev0 @ ev)
                  else
                    (Inr \<lparr>tokenManager = Some c, timestamp = now'\<rparr>, st\<lparr>tokenCache := c\<rparr>,
                     ev0 @ ev
                     @ [Console ConsoleLog
                          ''Initial token generated successfully (expires in {expirySeconds}s)'' [],
                        Console ConsoleLog ''===================================='' []]))"

text \<open>
  The first statement of \<open>getToken\<close>: a cache without a configuration is replaced by
  the snapshot in \<open>data\<close>, when there is one.
\<close>

definition adopt_snapshot :: "setup_data option \<Rightarrow> token_cache \<Rightarrow> token_cache" where
  "adopt_snapshot data c =
     (if config c = None then
        (case data of
           None \<Rightarrow> c
         | Some d \<Rightarrow> (case tokenManager d of None \<Rightarrow> c | Some tm \<Rightarrow> tm))
      else c)"

text \<open>
  \<open>getToken(data)\<close>; \<open>now\<close> is the clock read by \<open>getToken\<close> itself and \<open>now'\<close> the
  clock read by the generation it may start. A \<open>generatedAt\<close> of \<open>null\<close> counts as
  zero in the sum. An exception of the generation leaves \<open>refreshLock\<close> set.
\<close>

definition getToken ::
  "(request \<Rightarrow> response) \<Rightarrow> real \<Rightarrow> real \<Rightarrow> setup_data option \<Rightarrow> tm_state
     \<Rightarrow> (js_error + js) \<times> tm_state \<times> event list" where
  "getToken http now now' data st =
     (let c = adopt_snapshot data (tokenCache st)
      in case config c of
           None \<Rightarrow>
             (Inl (JsError ''Token manager not initialized. Call initTokenManager() in setup()''),
              st\<lparr>tokenCache := c\<rparr>, [])
         | Some cfg \<Rightarrow>
             let refreshThreshold = with_default 0 (generatedAt c) + expirySeconds cfg * 1000 * 0.8
             in if now \<ge> refreshThreshold then
                  if \<not> refreshLock st then
                    let (r, c', ev) = generateToken http now' c;
                        ev' = Console ConsoleLog ''[TOKEN] Token approaching expiry, refreshing...'' []
                              # ev
                    in case r of
                         Inl e \<Rightarrow> (Inl e, \<lparr>tokenCache = c', refreshLock = True\<rparr>, ev')
                       | Inr newToken \<Rightarrow>
                           if truthy newToken then
                             (Inr newToken, \<lparr>tokenCache = c', refreshLock = False\<rparr>, ev')
                           else
                             (Inr (token c'), \<lparr>tokenCache = c', refreshLock = False\<rparr>,
                              ev' @ [Console ConsoleWarn
                                       ''[TOKEN] Refresh failed, using existing token'' []])
                  else (Inr (token c), st\<lparr>tokenCache := c\<rparr>, [Sleep])
                else (Inr (token c), st\<lparr>tokenCache := c\<rparr>, []))"

text \<open>\<open>isTokenValid()\<close> and \<open>getTokenTTL()\<close> read the cache; \<open>0\<close> is falsy.\<close>

definition isTokenValid :: "real \<Rightarrow> token_cache \<Rightarrow> bool" where
  "isTokenValid now c =
     (case expiresAt c of
        None \<Rightarrow> False
      | Some e \<Rightarrow> truthy (token c) \<and> e \<noteq> 0 \<and> now < e)"

definition getTokenTTL :: "real \<Rightarrow> token_cache \<Rightarrow> real" where
  "getTokenTTL now c =
     (case expiresAt c of
        None \<Rightarrow> 0
      | Some e \<Rightarrow> if e = 0 then 0 else max 0 (e - now))"

text \<open>\<open>forceRefreshToken()\<close>\<close>

definition forceRefreshToken ::
  "(request \<Rightarrow> response) \<Rightarrow> real \<Rightarrow> token_cache \<Rightarrow> (js_error + js) \<times> token_cache \<times> event list" where
  "forceRefreshToken http now c =
     (let (r, c', ev) = generateToken http now c
      in (r, c', Console ConsoleLog ''[TOKEN] Force refresh requested'' [] # ev))"

text \<open>The number of token requests sent during a call.\<close>

fun is_http_request :: "event \<Rightarrow> bool" where
  "is_http_request (HttpRequest req) = True"
| "is_http_request e = False"

definition regeneration_attempts :: "event list \<Rightarrow> nat" where
  "regeneration_attempts ev = length (filter is_http_request ev)"

text \<open>
  The three fields that a generation writes, compared between two caches, and the
  state of those fields right after a generation at time \<open>now\<close>.
\<close>

definition same_token_fields :: "token_cache \<Rightarrow> token_cache \<Rightarrow> bool" where
  "same_token_fields c c' =
     (token c' = token c \<and> generatedAt c' = generatedAt c \<and> expiresAt c' = expiresAt c)"

definition freshly_generated :: "real \<Rightarrow> token_cache \<Rightarrow> bool" where
  "freshly_generated now c' =
     (case config c' of
        None \<Rightarrow> False
      | Some cfg \<Rightarrow>
          truthy (token c') \<and> generatedAt c' = Some now
          \<and> expiresAt c' = Some (now + expirySeconds cfg * 1000))"

text \<open>A generation succeeded when it returned a token rather than \<open>null\<close>.\<close>

fun returned_token :: "js_error + js \<Rightarrow> bool" where
  "returned_token (Inr tok) = truthy tok"
| "returned_token (Inl e) = False"


section \<open>Correlation manager: values extracted from one response for later requests\<close>

record corr_entry =
  cvalue :: js
  extractedAt :: real
  source :: string

text \<open>
  The module variable \<open>correlationStore\<close>, an object used as a dictionary: the map
  holds the entries assigned to it. Its prototype is \<open>Object.prototype\<close>, as for every
  object literal; an assignment to the key \<open>__proto__\<close>, which would replace the
  prototype instead of adding an entry, is not modelled.
\<close>

type_synonym correlation_store = "string \<rightharpoonup> corr_entry"

record extract_options =
  required :: "bool option"
  defaultValue :: "js option"
  logExtraction :: "bool option"

definition default_extract_options :: extract_options where
  "default_extract_options = \<lparr>required = None, defaultValue = None, logExtraction = None\<rparr>"

text \<open>
  The loop of \<open>extractJsonValue\<close> over the parts of the path. \<open>Inl\<close> is an exception
  for the enclosing \<open>catch\<close>; \<open>Inr\<close> is what the function returns.
\<close>

fun extract_loop :: "js \<Rightarrow> js \<Rightarrow> string list \<Rightarrow> js_error + js" where
  "extract_loop dflt v [] = Inr (if v \<noteq> JUndefined then v else dflt)"
| "extract_loop dflt v (part # parts) =
     (if nullish v then Inr dflt
      else
        (case array_match part of
           Some (arrayName, index) \<Rightarrow>
             (case js_get v arrayName of
                Inl e \<Rightarrow> Inl e
              | Inr (JArr xs) \<Rightarrow>
                  if index < length xs then extract_loop dflt (xs ! index) parts else Inr dflt
              | Inr other \<Rightarrow> Inr dflt)
         | None \<Rightarrow>
             (case js_get v part of
                Inl e \<Rightarrow> Inl e
              | Inr v' \<Rightarrow> extract_loop dflt v' parts)))"

text \<open>\<open>extractJsonValue(response, path, defaultValue)\<close>; a missing response is \<open>None\<close>.\<close>

definition extractJsonValue :: "response option \<Rightarrow> string \<Rightarrow> js \<Rightarrow> js \<times> event list" where
  "extractJsonValue resp path dflt =
     (let defaultValue' = null_if_undefined dflt
      in case resp of
           None \<Rightarrow> (defaultValue', [])
         | Some r \<Rightarrow>
             (case json r of
                None \<Rightarrow>
                  (defaultValue',
                   [Console ConsoleError ''[CORRELATION] Error extracting {path}: {message}''
                      [JStr path]])
              | Some jsonData \<Rightarrow>
                  if path = [] then (jsonData, [])
                  else
                    (case extract_loop defaultValue' jsonData (split_on CHR ''.'' path) of
                       Inl e \<Rightarrow>
                         (defaultValue',
                          [Console ConsoleError
                             ''[CORRELATION] Error extracting {path}: {message}'' [JStr path]])
                     | Inr v \<Rightarrow> (v, []))))"

text \<open>
  The \<open>defaultValue\<close> of the options: the destructuring replaces an absent or
  \<open>undefined\<close> property by \<open>null\<close>.
\<close>

definition default_of :: "extract_options \<Rightarrow> js" where
  "default_of options =
     (case defaultValue options of
        None \<Rightarrow> JNull
      | Some d \<Rightarrow> if d = JUndefined then JNull else d)"

text \<open>
  \<open>extractAndStore(response, jsonPath, correlationKey, options)\<close>; \<open>now\<close> is
  \<open>Date.now()\<close>. The two messages about the response read \<open>response.status\<close> and
  \<open>response.body.substring(0, 200)\<close> and throw when the response or its body is
  \<open>null\<close>.
\<close>

definition extractAndStore ::
  "response option \<Rightarrow> string \<Rightarrow> string \<Rightarrow> extract_options \<Rightarrow> real \<Rightarrow> correlation_store
     \<Rightarrow> (js_error + js) \<times> correlation_store \<times> event list" where
  "extractAndStore resp jsonPath correlationKey options now store =
     (let required' = with_default True (required options);
          logExtraction' = with_default True (logExtraction options);
          (v, ev) = extractJsonValue resp jsonPath (default_of options);
          failed = Console ConsoleError ''[CORRELATION] Failed to extract {correlationKey} from path {jsonPath}''
                     [JStr correlationKey, JStr jsonPath]
      in if nullish v \<and> required' then
           (case resp of
              None \<Rightarrow>
                (Inl (TypeError ''Cannot read properties of null (reading status)''), store,
                 ev @ [failed])
            | Some r \<Rightarrow>
                (case body r of
                   None \<Rightarrow>
                     (Inl (TypeError ''Cannot read properties of null (reading substring)''),
                      store,
                      ev @ [failed,
                            Console ConsoleError ''[CORRELATION] Response status: {status}''
                              [JNum (status r)]])
                 | Some b \<Rightarrow>
                     (Inr JNull, store,
                      ev @ [failed,
                            Console ConsoleError ''[CORRELATION] Response status: {status}''
                              [JNum (status r)],
                            Console ConsoleError ''[CORRELATION] Response body: {body}''
                              [JStr (take 200 b)]])))
         else
           (Inr v,
            store(correlationKey \<mapsto> \<lparr>cvalue = v, extractedAt = now, source = jsonPath\<rparr>),
            ev
            @ (if nullish v \<and> logExtraction'
               then [Console ConsoleWarn
                       ''[CORRELATION] Failed to extract {correlationKey} from path {jsonPath} (optional)''
                       [JStr correlationKey, JStr jsonPath]]
               else [])
            @ (if logExtraction'
               then [Console ConsoleLog ''[CORRELATION] Stored {correlationKey} = {value}''
                       [JStr correlationKey, v]]
               else [])))"

text \<open>
  The store is created as \<open>{}\<close>, so its prototype is \<open>Object.prototype\<close>. The map
  holds its own entries; these are the names it inherits, the standard members and
  those of Annex B.
\<close>

definition object_prototype_members :: "string list" where
  "object_prototype_members =
     [''constructor'', ''hasOwnProperty'', ''isPrototypeOf'', ''propertyIsEnumerable'',
      ''toLocaleString'', ''toString'', ''valueOf'', ''__proto__'',
      ''__defineGetter__'', ''__defineSetter__'', ''__lookupGetter__'', ''__lookupSetter__'']"

text \<open>
  What \<open>correlationStore[key]\<close> finds: an entry of the store itself, a member inherited
  from the prototype (a function, or the prototype itself for \<open>__proto__\<close>: a truthy
  value with no property \<open>value\<close>), or nothing (\<open>undefined\<close>). The test
  \<open>key in correlationStore\<close> holds in the first two cases.
\<close>

datatype lookup = OwnEntry corr_entry | InheritedMember | NoProperty

definition store_read :: "correlation_store \<Rightarrow> string \<Rightarrow> lookup" where
  "store_read store key =
     (case store key of
        Some stored \<Rightarrow> OwnEntry stored
      | None \<Rightarrow> if key \<in> set object_prototype_members then InheritedMember else NoProperty)"

text \<open>
  \<open>getCorrelatedValue(correlationKey, defaultValue = null)\<close>: the default when
  nothing is found, and otherwise the property \<open>value\<close> of what is found, which is
  \<open>undefined\<close> on an inherited member.
\<close>

definition getCorrelatedValue :: "correlation_store \<Rightarrow> string \<Rightarrow> js \<Rightarrow> js" where
  "getCorrelatedValue store correlationKey dflt =
     (case store_read store correlationKey of
        NoProperty \<Rightarrow> null_if_undefined dflt
      | InheritedMember \<Rightarrow> JUndefined
      | OwnEntry stored \<Rightarrow> cvalue stored)"

text \<open>
  \<open>hasCorrelation(correlationKey)\<close>: the key is in the store and the property
  \<open>value\<close> of what is found is neither \<open>null\<close> nor \<open>undefined\<close>.
\<close>

definition hasCorrelation :: "correlation_store \<Rightarrow> string \<Rightarrow> bool" where
  "hasCorrelation store correlationKey =
     (case store_read store correlationKey of
        NoProperty \<Rightarrow> False
      | InheritedMember \<Rightarrow> JUndefined \<noteq> JNull \<and> JUndefined \<noteq> JUndefined
      | OwnEntry stored \<Rightarrow> cvalue stored \<noteq> JNull \<and> cvalue stored \<noteq> JUndefined)"

text \<open>\<open>storeCorrelation(key, value)\<close>\<close>

definition storeCorrelation :: "string \<Rightarrow> js \<Rightarrow> real \<Rightarrow> correlation_store \<Rightarrow> correlation_store" where
  "storeCorrelation key v now store =
     store(key \<mapsto> \<lparr>cvalue = v, extractedAt = now, source = ''manual''\<rparr>)"

text \<open>\<open>clearCorrelations()\<close> and \<open>clearCorrelation(key)\<close>\<close>

definition clearCorrelations :: "correlation_store \<Rightarrow> correlation_store" where
  "clearCorrelations store = Map.empty"

definition clearCorrelation :: "string \<Rightarrow> correlation_store \<Rightarrow> correlation_store" where
  "clearCorrelation key store = store(key := None)"

text \<open>
  The mapping that \<open>buildCorrelatedUrl\<close> derives from the template when it is given
  none: each placeholder, without its braces, mapped to itself.
\<close>

definition derived_mapping :: "string \<Rightarrow> (string \<times> string) list option" where
  "derived_mapping urlTemplate =
     (case placeholders urlTemplate of
        [] \<Rightarrow> None
      | p # ps \<Rightarrow>
          Some (fold (\<lambda>q m. obj_set m (butlast (tl q)) (butlast (tl q))) (p # ps) []))"

text \<open>The loop of \<open>buildCorrelatedUrl\<close> over the entries of the mapping.\<close>

fun replace_placeholders ::
  "correlation_store \<Rightarrow> string \<Rightarrow> (string \<times> string) list \<Rightarrow> string option \<times> event list" where
  "replace_placeholders store url' [] = (Some url', [])"
| "replace_placeholders store url' ((placeholder, correlationKey) # rest) =
     (let v = getCorrelatedValue store correlationKey JNull
      in if nullish v then
           (None,
            [Console ConsoleError
               ''[CORRELATION] Cannot build URL: missing correlation {correlationKey} for placeholder {placeholder}''
               [JStr correlationKey, JStr placeholder]])
         else
           replace_placeholders store
             (js_replace url' (''{'' @ placeholder @ ''}'') (to_string v)) rest)"

text \<open>
  \<open>buildCorrelatedUrl(urlTemplate, correlationMapping)\<close>. A mapping is given by its
  entries; \<open>None\<close> is the absent or \<open>null\<close> mapping. The result \<open>None\<close> is \<open>null\<close>.
\<close>

definition buildCorrelatedUrl ::
  "correlation_store \<Rightarrow> string \<Rightarrow> (string \<times> string) list option \<Rightarrow> string option \<times> event list"
  where
  "buildCorrelatedUrl store urlTemplate correlationMapping =
     (case (case correlationMapping of
              None \<Rightarrow> derived_mapping urlTemplate
            | Some m \<Rightarrow> Some m) of
        None \<Rightarrow> (Some urlTemplate, [])
      | Some m \<Rightarrow> replace_placeholders store urlTemplate m)"


section \<open>Validators: checks on a response and the business error metrics\<close>

text \<open>The custom metrics: the sum of the counter and the samples given to the rate.\<close>

record metrics =
  businessErrors :: int
  businessErrorRate :: "int list"

datatype text_spec = OneText string | ManyTexts "string list"

text \<open>\<open>if (bodyContains)\<close>: an empty string is falsy, every array is truthy.\<close>

fun given :: "text_spec option \<Rightarrow> bool" where
  "given None = False"
| "given (Some (OneText t)) = (t \<noteq> [])"
| "given (Some (ManyTexts ts)) = True"

text \<open>\<open>Array.isArray(x) ? x : [x]\<close>\<close>

fun texts :: "text_spec option \<Rightarrow> string list" where
  "texts None = []"
| "texts (Some (OneText t)) = [t]"
| "texts (Some (ManyTexts ts)) = ts"

text \<open>
  The second argument of \<open>validateResponse\<close>. In \<open>jsonSchema\<close> an empty type name
  stands for a falsy expected type.
\<close>

record validation_config =
  apiName :: "string option"
  expectedStatus :: "int option"
  expectedStatuses :: "int list option"
  checkBody :: "bool option"
  bodyContains :: "text_spec option"
  bodyNotContains :: "text_spec option"
  jsonSchema :: "(string \<times> string) list option"
  customChecks :: "(string \<times> (response \<Rightarrow> bool)) list option"
  failFast :: "bool option"

definition quoted :: "string \<Rightarrow> string" where
  "quoted t = CHR 0x27 # t @ [CHR 0x27]"

text \<open>\<open>r.body && r.body.length > 0\<close>, as a truth value.\<close>

definition has_body :: "response \<Rightarrow> bool" where
  "has_body r = (case body r of None \<Rightarrow> False | Some b \<Rightarrow> b \<noteq> [])"

text \<open>\<open>r.body && r.body.includes(text)\<close>, as a truth value.\<close>

definition body_includes :: "string \<Rightarrow> response \<Rightarrow> bool" where
  "body_includes t r = (case body r of None \<Rightarrow> False | Some b \<Rightarrow> b \<noteq> [] \<and> str_includes b t)"

text \<open>The checks on a field of the schema; their \<open>catch\<close> turns an exception into false.\<close>

definition has_field :: "string \<Rightarrow> response \<Rightarrow> bool" where
  "has_field field r =
     (case json r of
        None \<Rightarrow> False
      | Some j \<Rightarrow> (case js_in field j of Inl e \<Rightarrow> False | Inr b \<Rightarrow> b))"

definition field_has_type :: "string \<Rightarrow> string \<Rightarrow> response \<Rightarrow> bool" where
  "field_has_type field expectedType r =
     (case json r of
        None \<Rightarrow> False
      | Some j \<Rightarrow>
          (case js_get j field of Inl e \<Rightarrow> False | Inr v \<Rightarrow> type_name v = expectedType))"

text \<open>
  The object \<open>checks\<close> that \<open>validateResponse\<close> fills, in the order of its
  assignments; \<open>name\<close> is the API name.
\<close>

definition schema_checks ::
  "string \<Rightarrow> string \<times> string \<Rightarrow> (string \<times> (response \<Rightarrow> bool)) list
     \<Rightarrow> (string \<times> (response \<Rightarrow> bool)) list" where
  "schema_checks name entry checks =
     (let field = fst entry; expectedType = snd entry;
          checks1 = obj_set checks (name @ '': has field '' @ quoted field) (has_field field)
      in if expectedType \<noteq> [] then
           obj_set checks1 (name @ '': '' @ quoted field @ '' is '' @ expectedType)
             (field_has_type field expectedType)
         else checks1)"

definition build_checks ::
  "string \<Rightarrow> validation_config \<Rightarrow> (string \<times> (response \<Rightarrow> bool)) list" where
  "build_checks name cfg =
     (let checks1 =
            (case expectedStatuses cfg of
               Some sts \<Rightarrow>
                 [(name @ '': status in ['' @ join_with '','' (map show_int sts) @ '']'',
                   \<lambda>r. status r \<in> set sts)]
             | None \<Rightarrow>
                 [(name @ '': status '' @ show_int (with_default 200 (expectedStatus cfg)),
                   \<lambda>r. status r = with_default 200 (expectedStatus cfg))]);
          checks2 = obj_set checks1 (name @ '': response time < 5s'') (\<lambda>r. duration r < 5000);
          checks3 =
            (if with_default False (checkBody cfg) \<or> given (bodyContains cfg)
                \<or> jsonSchema cfg \<noteq> None
             then obj_set checks2 (name @ '': has response body'') has_body
             else checks2);
          checks4 =
            (if given (bodyContains cfg) then
               fold (\<lambda>t cs. obj_set cs (name @ '': body contains '' @ quoted t) (body_includes t))
                 (texts (bodyContains cfg)) checks3
             else checks3);
          checks5 =
            (if given (bodyNotContains cfg) then
               fold (\<lambda>t cs. obj_set cs (name @ '': body does not contain '' @ quoted t)
                               (\<lambda>r. \<not> body_includes t r))
                 (texts (bodyNotContains cfg)) checks4
             else checks4);
          checks6 =
            (case jsonSchema cfg of
               None \<Rightarrow> checks5
             | Some schema \<Rightarrow>
                 fold (schema_checks name) schema
                   (obj_set checks5 (name @ '': valid JSON response'') (\<lambda>r. json r \<noteq> None)))
      in case customChecks cfg of
           None \<Rightarrow> checks6
         | Some custom \<Rightarrow>
             fold (\<lambda>(checkName, checkFunc) cs. obj_set cs (name @ '': '' @ checkName) checkFunc)
               custom checks6)"

text \<open>
  \<open>validateResponse(response, config)\<close> on the metrics \<open>m\<close>. A \<open>null\<close> response is
  \<open>None\<close>; the first predicate that reads it throws.
\<close>

definition validateResponse ::
  "response option \<Rightarrow> validation_config \<Rightarrow> metrics \<Rightarrow> (js_error + bool) \<times> metrics \<times> event list"
  where
  "validateResponse resp cfg m =
     (if missing (apiName cfg) then
        (Inr False, m,
         [Console ConsoleError ''[VALIDATION] API name is required for validation'' []])
      else
        (case resp of
           None \<Rightarrow> (Inl (TypeError ''Cannot read properties of null (reading status)''), m, [])
         | Some r \<Rightarrow>
             let (result, ev) = check r (build_checks (with_default [] (apiName cfg)) cfg)
                                  [(''api'', with_default [] (apiName cfg))]
             in if status r < 200 \<or> status r \<ge> 300 then
                  (Inr result,
                   m\<lparr>businessErrors := businessErrors m + 1,
                     businessErrorRate := businessErrorRate m @ [1]\<rparr>, ev)
                else
                  (Inr result, m\<lparr>businessErrorRate := businessErrorRate m @ [0]\<rparr>, ev)))"


section \<open>Concrete scenarios\<close>

text \<open>
  The scenario of the specification: three rows, user 1. Iterations 0, 1 and 2 return
  the rows in file order; iteration 3 aborts by default and returns \<open>null\<close> when
  \<open>abortOnExhaustion\<close> is false.
\<close>

definition three_rows :: "row list" where
  "three_rows = [[(''user'', ''a'')], [(''user'', ''b'')], [(''user'', ''c'')]]"

text \<open>
  A token manager configured as in the documentation of the module, ten minutes of
  lifetime, with a token generated at time \<open>0\<close>.
\<close>

definition demo_config :: token_config where
  "demo_config =
     \<lparr>url = ''https://api.example.com/auth/token'', username = ''admin'',
      password = ''secret'', expirySeconds = 600, http_method = ''POST'', bodyTemplate = JNull,
      tokenPath = ''access_token'', headers = []\<rparr>"

definition demo_params :: token_params where
  "demo_params =
     \<lparr>p_url = Some ''https://api.example.com/auth/token'', p_username = Some ''admin'',
      p_password = Some ''secret'', p_expirySeconds = None, p_method = None,
      p_bodyTemplate = None, p_tokenPath = None, p_headers = None\<rparr>"

definition demo_state :: tm_state where
  "demo_state =
     \<lparr>tokenCache = \<lparr>token = JStr ''tok0'', expiresAt = Some 600000, generatedAt = Some 0,
                     config = Some demo_config\<rparr>,
      refreshLock = False\<rparr>"

text \<open>
  What k6 returns for a request that got no answer (connection refused, timeout):
  status \<open>0\<close> and a \<open>null\<close> body.
\<close>

definition failed_response :: response where
  "failed_response = \<lparr>status = 0, body = None, json = None, duration = 0\<rparr>"

definition token_response :: response where
  \<open>token_response =
     \<lparr>status = 200, body = Some ''{"access_token":"tok1"}'',
      json = Some (JObj [(''access_token'', JStr ''tok1'')]), duration = 120\<rparr>\<close>

text \<open>A response whose body is the empty JSON object.\<close>

definition empty_object_response :: response where
  "empty_object_response =
     \<lparr>status = 200, body = Some ''{}'', json = Some (JObj []), duration = 10\<rparr>"

definition optional_extraction :: extract_options where
  "optional_extraction = \<lparr>required = Some False, defaultValue = None, logExtraction = None\<rparr>"

definition nested_response :: response where
  \<open>nested_response =
     \<lparr>status = 200, body = Some ''{"a":{"b":[{"c":42}]}}'',
      json = Some (JObj [(''a'', JObj [(''b'', JArr [JObj [(''c'', JNum 42)]])])]),
      duration = 10\<rparr>\<close>

text \<open>Correlation stores holding \<open>id = 7\<close>, and \<open>id = 7\<close> with \<open>sub = 9\<close>.\<close>

definition id_store :: correlation_store where
  "id_store = storeCorrelation ''id'' (JNum 7) 0 Map.empty"

definition id_sub_store :: correlation_store where
  "id_sub_store = storeCorrelation ''sub'' (JNum 9) 0 id_store"

text \<open>
  The validation scenario of the specification: the configuration, and a response with
  body \<open>{"id":"u1"}\<close>, a given status and a given duration in milliseconds.
\<close>

definition create_user_config :: validation_config where
  "create_user_config =
     \<lparr>apiName = Some ''Create_User'', expectedStatus = Some 201, expectedStatuses = None,
      checkBody = None, bodyContains = None, bodyNotContains = None,
      jsonSchema = Some [(''id'', ''string'')], customChecks = None, failFast = None\<rparr>"

definition user_response :: "int \<Rightarrow> real \<Rightarrow> response" where
  \<open>user_response st ms =
     \<lparr>status = st, body = Some ''{"id":"u1"}'', json = Some (JObj [(''id'', JStr ''u1'')]),
      duration = ms\<rparr>\<close>

definition no_metrics :: metrics where
  "no_metrics = \<lparr>businessErrors = 0, businessErrorRate = []\<rparr>"


section \<open>Properties of the CSV data manager\<close>

text \<open>
  C3. Two different virtual users never compute the same allocation index as long as
  both iteration numbers lie in \<open>[0, 1000)\<close>, the bound the code assumes per user.
  The statement needs no positivity of the user ids.
\<close>

theorem allocation_index_distinct:
  assumes "w1 \<noteq> w2"
    and "0 \<le> s1" and "s1 < 1000"
    and "0 \<le> s2" and "s2 < 1000"
  shows "allocation_index w1 s1 \<noteq> allocation_index w2 s2"
proof
  assume eq: "allocation_index w1 s1 = allocation_index w2 s2"
  then have "(w1 - w2) * 1000 = s2 - s1"
    by (simp add: allocation_index_def algebra_simps)
  moreover have "\<bar>s2 - s1\<bar> < 1000" using assms by linarith
  ultimately have "\<bar>(w1 - w2) * 1000\<bar> < 1000" by simp
  then have "\<bar>w1 - w2\<bar> < 1" by (simp add: abs_mult)
  then show False using assms(1) by linarith
qed

theorem allocation_index_distinct_witness:
  "(1::int) \<noteq> 2 \<and> (0::int) \<le> 999 \<and> (999::int) < 1000 \<and> (0::int) \<le> 0 \<and> (0::int) < 1000
   \<and> allocation_index 1 999 \<noteq> allocation_index 2 0"
  using allocation_index_distinct [of 1 2 999 0] by simp

lemma getUniqueData_row_in_bounds:
  assumes "fst (getUniqueData dataArray vuId iteration options) = Inr (RetRow r)"
  shows "\<exists>d. dataArray = Some d \<and> 0 \<le> allocation_index vuId iteration
             \<and> allocation_index vuId iteration < int (length d)
             \<and> r = d ! nat (allocation_index vuId iteration)"
proof (cases dataArray)
  case None
  with assms show ?thesis by (simp add: getUniqueData_def Let_def split: if_splits)
next
  case (Some d)
  with assms show ?thesis
    by (cases "d = []") (auto simp: getUniqueData_def Let_def with_default_def split: if_splits)
qed

text \<open>
  C4. When the computed index is at or beyond the length of the data set, the call
  signals exhaustion: it aborts the run when \<open>abortOnExhaustion\<close> is true or absent, and
  returns \<open>null\<close> when it is false; the same holds for a missing data set. Whatever the
  arguments, a row that is returned is the row of the data set at the computed index,
  and that index lies inside the bounds.
\<close>

theorem getUniqueData_exhaustion:
  "(int (length d) \<le> allocation_index vuId iteration \<longrightarrow>
      (if with_default True (abortOnExhaustion options)
       then signals_abort (fst (getUniqueData (Some d) vuId iteration options))
       else fst (getUniqueData (Some d) vuId iteration options) = Inr RetNull))
   \<and> (if with_default True (abortOnExhaustion options)
       then signals_abort (fst (getUniqueData None vuId iteration options))
       else fst (getUniqueData None vuId iteration options) = Inr RetNull)
   \<and> (fst (getUniqueData (Some d) vuId iteration options) = Inr (RetRow r) \<longrightarrow>
        0 \<le> allocation_index vuId iteration
        \<and> allocation_index vuId iteration < int (length d)
        \<and> r = d ! nat (allocation_index vuId iteration))
   \<and> fst (getUniqueData None vuId iteration options) \<noteq> Inr (RetRow r)"
proof -
  have a: "int (length d) \<le> allocation_index vuId iteration \<longrightarrow>
      (if with_default True (abortOnExhaustion options)
       then signals_abort (fst (getUniqueData (Some d) vuId iteration options))
       else fst (getUniqueData (Some d) vuId iteration options) = Inr RetNull)"
    by (cases "abortOnExhaustion options") (auto simp: getUniqueData_def Let_def with_default_def)
  have b: "if with_default True (abortOnExhaustion options)
       then signals_abort (fst (getUniqueData None vuId iteration options))
       else fst (getUniqueData None vuId iteration options) = Inr RetNull"
    by (simp add: getUniqueData_def Let_def)
  have c: "fst (getUniqueData (Some d) vuId iteration options) = Inr (RetRow r) \<longrightarrow>
        0 \<le> allocation_index vuId iteration
        \<and> allocation_index vuId iteration < int (length d)
        \<and> r = d ! nat (allocation_index vuId iteration)"
    using getUniqueData_row_in_bounds [of "Some d" vuId iteration options r] by auto
  have e: "fst (getUniqueData None vuId iteration options) \<noteq> Inr (RetRow r)"
    using getUniqueData_row_in_bounds [of None vuId iteration options r] by auto
  from a b c e show ?thesis by blast
qed

theorem getUniqueData_exhaustion_witness:
  "int (length three_rows) \<le> allocation_index 1 3
   \<and> signals_abort (fst (getUniqueData (Some three_rows) 1 3 default_unique_options))
   \<and> fst (getUniqueData (Some three_rows) 1 3
            \<lparr>abortOnExhaustion = Some False, logExhaustion = None\<rparr>) = Inr RetNull
   \<and> fst (getUniqueData (Some three_rows) 1 2 default_unique_options)
       = Inr (RetRow [(''user'', ''c'')])
   \<and> allocation_index 1 2 < int (length three_rows)"
  using getUniqueData_exhaustion [of three_rows 1 3 default_unique_options]
    getUniqueData_exhaustion [of three_rows 1 3
      "\<lparr>abortOnExhaustion = Some False, logExhaustion = None\<rparr>"]
    getUniqueData_exhaustion [of three_rows 1 2 default_unique_options "[(''user'', ''c'')]"]
  by (simp add: three_rows_def allocation_index_def default_unique_options_def
      with_default_def getUniqueData_def)


section \<open>Properties of the token manager\<close>

lemma generateToken_attempts:
  assumes "config c = Some cfg"
  shows "regeneration_attempts (snd (snd (generateToken http now c))) = 1"
  using assms
  by (simp add: generateToken_def check_def regeneration_attempts_def Let_def
      split: option.split sum.split)

lemma generateToken_outcome:
  assumes "generateToken http now c = (r, c', ev)"
  shows "(returned_token r \<longrightarrow> r = Inr (token c') \<and> freshly_generated now c')
         \<and> (c' = c \<or> (freshly_generated now c' \<and> config c' = config c))"
  using assms
  by (auto simp: generateToken_def check_def freshly_generated_def Let_def
      split: option.splits sum.splits if_splits)

lemma forceRefreshToken_outcome:
  assumes "forceRefreshToken http now c = (r, c', ev)"
  shows "(returned_token r \<longrightarrow> r = Inr (token c') \<and> freshly_generated now c')
         \<and> (c' = c \<or> (freshly_generated now c' \<and> config c' = config c))"
proof -
  obtain ev0 where "generateToken http now c = (r, c', ev0)"
    using assms by (auto simp: forceRefreshToken_def Let_def split: prod.splits)
  then show ?thesis by (rule generateToken_outcome)
qed

lemma getToken_outcome:
  assumes "getToken http t now data st = (r, st', ev)"
  shows "tokenCache st' = adopt_snapshot data (tokenCache st)
         \<or> (freshly_generated now (tokenCache st')
            \<and> config (tokenCache st') = config (adopt_snapshot data (tokenCache st)))"
proof -
  obtain r0 c0 ev0
    where gen: "generateToken http now (adopt_snapshot data (tokenCache st)) = (r0, c0, ev0)"
    by (cases "generateToken http now (adopt_snapshot data (tokenCache st))") auto
  from generateToken_outcome [OF gen]
  have c0: "c0 = adopt_snapshot data (tokenCache st)
            \<or> (freshly_generated now c0 \<and> config c0 = config (adopt_snapshot data (tokenCache st)))"
    by blast
  have "tokenCache st' = adopt_snapshot data (tokenCache st) \<or> tokenCache st' = c0"
    using assms gen
    by (auto simp: getToken_def Let_def split: option.splits if_splits sum.splits)
  with c0 show ?thesis by auto
qed

lemma initTokenManager_outcome:
  assumes "initTokenManager http now now' params st = (r, st', ev)"
  shows "(same_token_fields (tokenCache st) (tokenCache st')
          \<or> freshly_generated now (tokenCache st'))
         \<and> (\<forall>d. r = Inr d \<longrightarrow> freshly_generated now (tokenCache st')
                \<and> tokenManager d = Some (tokenCache st'))"
proof (cases "missing (p_url params) \<or> missing (p_username params) \<or> missing (p_password params)")
  case True
  with assms show ?thesis
    by (auto simp: initTokenManager_def same_token_fields_def Let_def split: if_splits)
next
  case False
  define cfg where "cfg = \<lparr>url = with_default [] (p_url params),
                      username = with_default [] (p_username params),
                      password = with_default [] (p_password params),
                      expirySeconds = with_default 600 (p_expirySeconds params),
                      http_method = with_default ''POST'' (p_method params),
                      bodyTemplate = with_default JNull (p_bodyTemplate params),
                      tokenPath = with_default ''access_token'' (p_tokenPath params),
                      headers = with_default [] (p_headers params)\<rparr>"
  obtain r0 c0 ev0
    where gen: "generateToken http now ((tokenCache st)\<lparr>config := Some cfg\<rparr>) = (r0, c0, ev0)"
    by (cases "generateToken http now ((tokenCache st)\<lparr>config := Some cfg\<rparr>)") auto
  from generateToken_outcome [OF gen]
  have c0: "returned_token r0 \<longrightarrow> freshly_generated now c0"
    and c1: "c0 = (tokenCache st)\<lparr>config := Some cfg\<rparr> \<or> freshly_generated now c0"
    by blast+
  have st': "tokenCache st' = c0"
    using assms gen False
    by (auto simp: initTokenManager_def Let_def cfg_def split: sum.splits if_splits)
  have ok: "\<forall>d. r = Inr d \<longrightarrow> returned_token r0 \<and> tokenManager d = Some c0"
    using assms gen False
    by (auto simp: initTokenManager_def Let_def cfg_def split: sum.splits if_splits)
  from c1 have "same_token_fields (tokenCache st) c0 \<or> freshly_generated now c0"
    by (auto simp: same_token_fields_def)
  with st' ok c0 show ?thesis by auto
qed

text \<open>
  C2. On a cache that holds a configuration with lifetime \<open>L\<close> seconds and a token
  generated at \<open>t0\<close> (milliseconds), a call of \<open>getToken\<close> strictly before
  \<open>t0 + 0.8 * L\<close> sends no token request, changes nothing and returns the cached
  token; a call at or after that time with the refresh lock clear sends exactly one
  token request, whatever the server answers. Time and lifetime are exact reals.
\<close>

theorem getToken_refresh_threshold:
  assumes "config (tokenCache st) = Some cfg"
    and "generatedAt (tokenCache st) = Some t0"
  shows "(now < t0 + 0.8 * (expirySeconds cfg * 1000) \<longrightarrow>
            getToken http now now' data st = (Inr (token (tokenCache st)), st, []))
         \<and> (now \<ge> t0 + 0.8 * (expirySeconds cfg * 1000) \<and> \<not> refreshLock st \<longrightarrow>
            regeneration_attempts (snd (snd (getToken http now now' data st))) = 1)"
proof (intro conjI impI)
  assume "now < t0 + 0.8 * (expirySeconds cfg * 1000)"
  then show "getToken http now now' data st = (Inr (token (tokenCache st)), st, [])"
    using assms by (simp add: getToken_def adopt_snapshot_def with_default_def)
next
  assume a: "now \<ge> t0 + 0.8 * (expirySeconds cfg * 1000) \<and> \<not> refreshLock st"
  have g: "regeneration_attempts (snd (snd (generateToken http now' (tokenCache st)))) = 1"
    using assms(1) by (rule generateToken_attempts)
  obtain r c' ev where gen: "generateToken http now' (tokenCache st) = (r, c', ev)"
    by (cases "generateToken http now' (tokenCache st)") auto
  with g have ev: "regeneration_attempts ev = 1" by simp
  show "regeneration_attempts (snd (snd (getToken http now now' data st))) = 1"
    using assms a gen ev
    by (cases r)
       (auto simp: getToken_def adopt_snapshot_def with_default_def regeneration_attempts_def
          Let_def)
qed

theorem getToken_refresh_threshold_witness:
  "config (tokenCache demo_state) = Some demo_config
   \<and> generatedAt (tokenCache demo_state) = Some 0
   \<and> (479999::real) < 0 + 0.8 * (expirySeconds demo_config * 1000)
   \<and> getToken (\<lambda>req. token_response) 479999 479999 None demo_state
       = (Inr (JStr ''tok0''), demo_state, [])
   \<and> (480000::real) \<ge> 0 + 0.8 * (expirySeconds demo_config * 1000)
   \<and> \<not> refreshLock demo_state
   \<and> regeneration_attempts
        (snd (snd (getToken (\<lambda>req. token_response) 480000 480000 None demo_state))) = 1"
  using getToken_refresh_threshold
          [of demo_state demo_config 0 479999 "\<lambda>req. token_response" 479999 None]
        getToken_refresh_threshold
          [of demo_state demo_config 0 480000 "\<lambda>req. token_response" 480000 None]
  by (simp add: demo_state_def demo_config_def)

text \<open>
  The first testable property of the specification: right after an initialisation at
  time \<open>now\<close> with a positive lifetime, \<open>getToken\<close> returns the token of the initial
  generation and sends no request.
\<close>

lemma getToken_after_generation:
  assumes "generateToken http now c = (Inr tok, c', ev)"
    and "truthy tok"
    and "config c = Some cfg"
    and "0 < expirySeconds cfg"
  shows "getToken http' now now'' data \<lparr>tokenCache = c', refreshLock = lock\<rparr>
           = (Inr tok, \<lparr>tokenCache = c', refreshLock = lock\<rparr>, [])"
proof -
  from generateToken_outcome [OF assms(1)] assms(2)
  have tok: "token c' = tok" and fresh: "freshly_generated now c'" by auto
  from generateToken_outcome [OF assms(1)] fresh have "config c' = config c" by auto
  with assms(3) have cfg: "config c' = Some cfg" by simp
  with fresh have gen: "generatedAt c' = Some now" by (simp add: freshly_generated_def)
  from assms(4) have "now < now + expirySeconds cfg * 1000 * 0.8" by simp
  with cfg gen tok show ?thesis
    by (simp add: getToken_def adopt_snapshot_def with_default_def)
qed

text \<open>
  A worker whose cache has no configuration takes the snapshot of the setup data as
  its cache on the first call of \<open>getToken\<close>: the three fields change from \<open>null\<close> to
  those of the snapshot although no token is generated and no request is sent.
\<close>

theorem getToken_adopts_snapshot:
  "token (tokenCache initial_tm_state) = JNull
   \<and> generatedAt (tokenCache initial_tm_state) = None
   \<and> expiresAt (tokenCache initial_tm_state) = None
   \<and> getToken (\<lambda>req. token_response) 1000 1000
        (Some \<lparr>tokenManager = Some (tokenCache demo_state), timestamp = 0\<rparr>) initial_tm_state
       = (Inr (JStr ''tok0''), demo_state, [])"
  by (simp add: getToken_def adopt_snapshot_def with_default_def initial_tm_state_def
      demo_state_def demo_config_def)

text \<open>
  C6, amended. A generation that returns a token has written \<open>token\<close>, \<open>generatedAt\<close>
  and \<open>expiresAt\<close> in the same step, with
  \<open>expiresAt = generatedAt + expirySeconds * 1000\<close>; a generation leaves the cache as it
  was or in that freshly generated state, and so does a forced refresh. Apart from a
  generation, the three fields change only when \<open>getToken\<close>, called on a cache without
  a configuration, replaces the whole cache by the snapshot of the setup data:
  \<open>getToken\<close> leaves the cache, after that adoption, as it was or freshly generated,
  and on a cache that has a configuration it adopts nothing. \<open>initTokenManager\<close> leaves
  the three fields as they were or freshly generated; when it returns, they are
  freshly generated and the snapshot it returns is the cache. No other function of the
  module returns a cache.
\<close>

theorem token_fields_written_together:
  "(case generateToken http now c of
      (r, c', ev) \<Rightarrow>
        (returned_token r \<longrightarrow> r = Inr (token c') \<and> freshly_generated now c')
        \<and> (c' = c \<or> (freshly_generated now c' \<and> config c' = config c)))
   \<and> (case forceRefreshToken http now c of
        (r, c', ev) \<Rightarrow>
          (returned_token r \<longrightarrow> r = Inr (token c') \<and> freshly_generated now c')
          \<and> (c' = c \<or> (freshly_generated now c' \<and> config c' = config c)))
   \<and> (case getToken http t now data st of
        (r, st', ev) \<Rightarrow>
          tokenCache st' = adopt_snapshot data (tokenCache st)
          \<or> (freshly_generated now (tokenCache st')
             \<and> config (tokenCache st') = config (adopt_snapshot data (tokenCache st))))
   \<and> (config (tokenCache st) \<noteq> None \<longrightarrow>
        (case getToken http t now data st of
           (r, st', ev) \<Rightarrow>
             tokenCache st' = tokenCache st
             \<or> (freshly_generated now (tokenCache st')
                \<and> config (tokenCache st') = config (tokenCache st))))
   \<and> (case initTokenManager http now now' params st of
        (r, st', ev) \<Rightarrow>
          (same_token_fields (tokenCache st) (tokenCache st')
           \<or> freshly_generated now (tokenCache st'))
          \<and> (\<forall>d. r = Inr d \<longrightarrow> freshly_generated now (tokenCache st')
                 \<and> tokenManager d = Some (tokenCache st')))"
proof (intro conjI)
  show "case generateToken http now c of
      (r, c', ev) \<Rightarrow>
        (returned_token r \<longrightarrow> r = Inr (token c') \<and> freshly_generated now c')
        \<and> (c' = c \<or> (freshly_generated now c' \<and> config c' = config c))"
    using generateToken_outcome [of http now c] by (cases "generateToken http now c") simp
  show "case forceRefreshToken http now c of
        (r, c', ev) \<Rightarrow>
          (returned_token r \<longrightarrow> r = Inr (token c') \<and> freshly_generated now c')
          \<and> (c' = c \<or> (freshly_generated now c' \<and> config c' = config c))"
    using forceRefreshToken_outcome [of http now c]
    by (cases "forceRefreshToken http now c") simp
  show "case getToken http t now data st of
        (r, st', ev) \<Rightarrow>
          tokenCache st' = adopt_snapshot data (tokenCache st)
          \<or> (freshly_generated now (tokenCache st')
             \<and> config (tokenCache st') = config (adopt_snapshot data (tokenCache st)))"
    using getToken_outcome [of http t now data st]
    by (cases "getToken http t now data st") simp
  show "config (tokenCache st) \<noteq> None \<longrightarrow>
        (case getToken http t now data st of
           (r, st', ev) \<Rightarrow>
             tokenCache st' = tokenCache st
             \<or> (freshly_generated now (tokenCache st')
                \<and> config (tokenCache st') = config (tokenCache st)))"
  proof
    assume "config (tokenCache st) \<noteq> None"
    then have "adopt_snapshot data (tokenCache st) = tokenCache st"
      by (auto simp: adopt_snapshot_def)
    then show "case getToken http t now data st of
           (r, st', ev) \<Rightarrow>
             tokenCache st' = tokenCache st
             \<or> (freshly_generated now (tokenCache st')
                \<and> config (tokenCache st') = config (tokenCache st))"
      using getToken_outcome [of http t now data st]
      by (cases "getToken http t now data st") simp
  qed
  show "case initTokenManager http now now' params st of
        (r, st', ev) \<Rightarrow>
          (same_token_fields (tokenCache st) (tokenCache st')
           \<or> freshly_generated now (tokenCache st'))
          \<and> (\<forall>d. r = Inr d \<longrightarrow> freshly_generated now (tokenCache st')
                 \<and> tokenManager d = Some (tokenCache st'))"
    using initTokenManager_outcome [of http now now' params st]
    by (cases "initTokenManager http now now' params st") auto
qed

theorem token_fields_written_together_witness:
  "returned_token (fst (generateToken (\<lambda>req. token_response) 1000 (tokenCache demo_state)))
   \<and> fst (generateToken (\<lambda>req. token_response) 1000 (tokenCache demo_state))
       = Inr (JStr ''tok1'')
   \<and> fst (snd (generateToken (\<lambda>req. token_response) 1000 (tokenCache demo_state)))
       = \<lparr>token = JStr ''tok1'', expiresAt = Some 601000, generatedAt = Some 1000,
            config = Some demo_config\<rparr>
   \<and> freshly_generated 1000
        (fst (snd (generateToken (\<lambda>req. token_response) 1000 (tokenCache demo_state))))
   \<and> fst (initTokenManager (\<lambda>req. token_response) 1000 1001 demo_params initial_tm_state)
       = Inr \<lparr>tokenManager =
                 Some \<lparr>token = JStr ''tok1'', expiresAt = Some 601000,
                         generatedAt = Some 1000, config = Some demo_config\<rparr>,
               timestamp = 1001\<rparr>
   \<and> config (tokenCache demo_state) \<noteq> None
   \<and> tokenCache (fst (snd (getToken (\<lambda>req. token_response) 0 1000 None demo_state)))
       = tokenCache demo_state"
  using token_fields_written_together
          [where http = "\<lambda>req. token_response" and now = 1000
             and c = "tokenCache demo_state" and t = 0 and data = None and st = initial_tm_state
             and now' = 1001 and params = demo_params]
        token_fields_written_together
          [where http = "\<lambda>req. token_response" and now = 1000
             and c = "tokenCache demo_state" and t = 0 and data = None and st = demo_state
             and now' = 1001 and params = demo_params]
  by (simp add: initTokenManager_def demo_params_def missing_def with_default_def
        initial_tm_state_def generateToken_def check_def token_in_response_def read_token_def
        token_response_def valid_date_def demo_config_def demo_state_def freshly_generated_def
        getToken_def adopt_snapshot_def Let_def)

text \<open>
  C9. The claim is that a failed refresh is answered with a warning and the stale
  token and never with an exception. When the token request got no answer, the
  response has a \<open>null\<close> body, and the message about the failed generation calls
  \<open>substring\<close> on it: the \<open>TypeError\<close> leaves \<open>getToken\<close>, and \<open>refreshLock\<close> stays
  set.
\<close>

theorem getToken_refresh_failure_throws:
  "fst (getToken (\<lambda>req. failed_response) 480000 480000 None demo_state)
     = Inl (TypeError ''Cannot read properties of null (reading substring)'')
   \<and> refreshLock (fst (snd (getToken (\<lambda>req. failed_response) 480000 480000 None demo_state)))"
  by (simp add: getToken_def adopt_snapshot_def with_default_def demo_state_def demo_config_def
      generateToken_def check_def token_in_response_def read_token_def failed_response_def
      Let_def)

text \<open>When the failed response has a body, the refresh ends as the claim says.\<close>

lemma getToken_refresh_failure_with_body:
  assumes "config (tokenCache st) = Some cfg"
    and "generatedAt (tokenCache st) = Some t0"
    and "now \<ge> t0 + 0.8 * (expirySeconds cfg * 1000)"
    and "\<not> refreshLock st"
    and "generateToken http now' (tokenCache st) = (Inr JNull, c', ev)"
  shows "getToken http now now' data st =
           (Inr (token c'), \<lparr>tokenCache = c', refreshLock = False\<rparr>,
            Console ConsoleLog ''[TOKEN] Token approaching expiry, refreshing...'' [] # ev
            @ [Console ConsoleWarn ''[TOKEN] Refresh failed, using existing token'' []])"
  using assms by (simp add: getToken_def adopt_snapshot_def with_default_def Let_def)


section \<open>Properties of the correlation manager\<close>

lemma empty_object_id: "extractJsonValue (Some empty_object_response) ''id'' JNull = (JNull, [])"
  by (simp add: extractJsonValue_def null_if_undefined_def empty_object_response_def
      array_match_def is_word_char_def)

text \<open>
  With the default options, an extraction that finds nothing returns \<open>null\<close> before
  the store is written: no entry exists under the key afterwards, and a later lookup
  yields its fallback.
\<close>

theorem extractAndStore_required_stores_nothing:
  "nullish (fst (extractJsonValue (Some empty_object_response) ''id'' (default_of default_extract_options)))
   \<and> fst (extractAndStore (Some empty_object_response) ''id'' ''userId'' default_extract_options 5
            Map.empty) = Inr JNull
   \<and> fst (snd (extractAndStore (Some empty_object_response) ''id'' ''userId''
                 default_extract_options 5 Map.empty)) ''userId'' = None
   \<and> getCorrelatedValue
        (fst (snd (extractAndStore (Some empty_object_response) ''id'' ''userId''
                     default_extract_options 5 Map.empty))) ''userId'' (JStr ''fallback'')
       = JStr ''fallback''"
  by (simp add: extractAndStore_def default_of_def default_extract_options_def with_default_def
      empty_object_id getCorrelatedValue_def store_read_def object_prototype_members_def
      null_if_undefined_def Let_def)
     (simp add: empty_object_response_def getCorrelatedValue_def store_read_def
        object_prototype_members_def null_if_undefined_def)

text \<open>
  C1, amended. For a response with a string body, when the path resolves to \<open>null\<close> or
  \<open>undefined\<close>: if \<open>required\<close> is true or absent, \<open>extractAndStore\<close> logs the failure,
  the status and the first 200 characters of the body as errors, leaves the store
  unchanged and returns \<open>null\<close>; if \<open>required\<close> is false, it stores the resolved value
  under the key and returns it, with a warning when \<open>logExtraction\<close> is true or absent.
\<close>

theorem extractAndStore_unresolved_path:
  assumes "body r = Some b"
    and "extractJsonValue (Some r) jsonPath (default_of options) = (v, ev)"
    and "nullish v"
  shows "(with_default True (required options) \<longrightarrow>
            extractAndStore (Some r) jsonPath correlationKey options now store =
              (Inr JNull, store,
               ev @ [Console ConsoleError
                       ''[CORRELATION] Failed to extract {correlationKey} from path {jsonPath}''
                       [JStr correlationKey, JStr jsonPath],
                     Console ConsoleError ''[CORRELATION] Response status: {status}''
                       [JNum (status r)],
                     Console ConsoleError ''[CORRELATION] Response body: {body}''
                       [JStr (take 200 b)]]))
         \<and> (\<not> with_default True (required options) \<longrightarrow>
            extractAndStore (Some r) jsonPath correlationKey options now store =
              (Inr v,
               store(correlationKey \<mapsto> \<lparr>cvalue = v, extractedAt = now, source = jsonPath\<rparr>),
               ev @ (if with_default True (logExtraction options)
                     then [Console ConsoleWarn
                             ''[CORRELATION] Failed to extract {correlationKey} from path {jsonPath} (optional)''
                             [JStr correlationKey, JStr jsonPath],
                           Console ConsoleLog ''[CORRELATION] Stored {correlationKey} = {value}''
                             [JStr correlationKey, v]]
                     else [])))"
  using assms by (simp add: extractAndStore_def Let_def)

theorem extractAndStore_unresolved_path_witness:
  "body empty_object_response = Some ''{}''
   \<and> extractJsonValue (Some empty_object_response) ''id'' (default_of default_extract_options)
       = (JNull, [])
   \<and> extractJsonValue (Some empty_object_response) ''id'' (default_of optional_extraction)
       = (JNull, [])
   \<and> nullish JNull
   \<and> with_default True (required default_extract_options)
   \<and> \<not> with_default True (required optional_extraction)
   \<and> extractAndStore (Some empty_object_response) ''id'' ''userId'' default_extract_options 5
        Map.empty =
       (Inr JNull, Map.empty,
        [Console ConsoleError
           ''[CORRELATION] Failed to extract {correlationKey} from path {jsonPath}''
           [JStr ''userId'', JStr ''id''],
         Console ConsoleError ''[CORRELATION] Response status: {status}'' [JNum 200],
         Console ConsoleError ''[CORRELATION] Response body: {body}'' [JStr ''{}'']])
   \<and> fst (extractAndStore (Some empty_object_response) ''id'' ''userId'' optional_extraction 5
            Map.empty) = Inr JNull
   \<and> fst (snd (extractAndStore (Some empty_object_response) ''id'' ''userId''
                 optional_extraction 5 Map.empty)) ''userId''
       = Some \<lparr>cvalue = JNull, extractedAt = 5, source = ''id''\<rparr>"
  using extractAndStore_unresolved_path
          [of empty_object_response "''{}''" "''id''" default_extract_options JNull "[]"
              "''userId''" 5 Map.empty]
        extractAndStore_unresolved_path
          [of empty_object_response "''{}''" "''id''" optional_extraction JNull "[]"
              "''userId''" 5 Map.empty]
  by (simp add: empty_object_id default_of_def default_extract_options_def
      optional_extraction_def with_default_def)
     (simp add: empty_object_response_def)

text \<open>
  After \<open>clearCorrelations\<close> the store is a fresh \<open>{}\<close>. A key that names a member of
  \<open>Object.prototype\<close> still finds that member, whose property \<open>value\<close> is
  \<open>undefined\<close>, so the fallback is not returned; and a fallback of \<open>undefined\<close> is
  replaced by \<open>null\<close>, the default of the parameter.
\<close>

theorem getCorrelatedValue_after_clear_not_fallback:
  "getCorrelatedValue
     (clearCorrelations (storeCorrelation ''toString'' (JStr ''u1'') 5 Map.empty)) ''toString''
     (JStr ''fallback'') = JUndefined
   \<and> getCorrelatedValue
       (clearCorrelations (storeCorrelation ''userId'' (JStr ''u1'') 5 Map.empty)) ''userId''
       JUndefined = JNull"
  by (simp add: getCorrelatedValue_def store_read_def object_prototype_members_def
      null_if_undefined_def clearCorrelations_def)

text \<open>
  C8, amended. After \<open>clearCorrelations\<close>, for every key that does not name a member of
  \<open>Object.prototype\<close>, \<open>getCorrelatedValue\<close> returns the fallback, with \<open>null\<close> in place
  of a fallback that is \<open>undefined\<close>, whatever was stored before; and \<open>hasCorrelation\<close>
  is false for every key.
\<close>

theorem clearCorrelations_forgets:
  "(correlationKey \<notin> set object_prototype_members \<longrightarrow>
      getCorrelatedValue (clearCorrelations store) correlationKey fallback
        = (if fallback = JUndefined then JNull else fallback))
   \<and> \<not> hasCorrelation (clearCorrelations store) correlationKey"
  by (simp add: getCorrelatedValue_def hasCorrelation_def store_read_def clearCorrelations_def
      null_if_undefined_def)

theorem clearCorrelations_forgets_witness:
  "''userId'' \<notin> set object_prototype_members
   \<and> getCorrelatedValue (storeCorrelation ''userId'' (JStr ''u1'') 5 Map.empty) ''userId''
       (JStr ''fallback'') = JStr ''u1''
   \<and> hasCorrelation (storeCorrelation ''userId'' (JStr ''u1'') 5 Map.empty) ''userId''
   \<and> getCorrelatedValue
        (clearCorrelations (storeCorrelation ''userId'' (JStr ''u1'') 5 Map.empty)) ''userId''
        (JStr ''fallback'') = JStr ''fallback''
   \<and> \<not> hasCorrelation
          (clearCorrelations (storeCorrelation ''userId'' (JStr ''u1'') 5 Map.empty)) ''userId''"
  using clearCorrelations_forgets
          [of "''userId''" "storeCorrelation ''userId'' (JStr ''u1'') 5 Map.empty"
              "JStr ''fallback''"]
  by (simp add: getCorrelatedValue_def hasCorrelation_def store_read_def storeCorrelation_def
      object_prototype_members_def null_if_undefined_def)

text \<open>
  C5. The claim is that every occurrence of each placeholder is substituted and that no
  partially substituted URL is returned. \<open>String.prototype.replace\<close> with a string
  pattern replaces the first occurrence only, so a placeholder that occurs twice is
  left in the URL that is returned.
\<close>

theorem buildCorrelatedUrl_repeated_placeholder:
  "buildCorrelatedUrl id_store ''/a/{id}/b/{id}'' None = (Some ''/a/7/b/{id}'', [])"
  by (simp add: buildCorrelatedUrl_def derived_mapping_def obj_set_def is_array_index_def
      is_digit_def id_store_def storeCorrelation_def getCorrelatedValue_def store_read_def object_prototype_members_def
      null_if_undefined_def js_replace_def
      starts_with_def show_int_def show_nat.simps)

text \<open>
  The example of the specification, and the part of the claim that holds: a mapping
  entry whose key has no stored value other than \<open>null\<close> makes the result \<open>null\<close>.
\<close>

lemma buildCorrelatedUrl_example:
  "buildCorrelatedUrl id_sub_store ''/x/{id}/y/{sub}'' None = (Some ''/x/7/y/9'', [])"
  by (simp add: buildCorrelatedUrl_def derived_mapping_def obj_set_def is_array_index_def
      is_digit_def id_store_def id_sub_store_def storeCorrelation_def getCorrelatedValue_def store_read_def object_prototype_members_def
      null_if_undefined_def js_replace_def
      starts_with_def show_int_def show_nat.simps)

lemma buildCorrelatedUrl_example_missing:
  "buildCorrelatedUrl id_store ''/x/{id}/y/{sub}'' None =
     (None, [Console ConsoleError
               ''[CORRELATION] Cannot build URL: missing correlation {correlationKey} for placeholder {placeholder}''
               [JStr ''sub'', JStr ''sub'']])"
  by (simp add: buildCorrelatedUrl_def derived_mapping_def obj_set_def is_array_index_def
      is_digit_def id_store_def storeCorrelation_def getCorrelatedValue_def store_read_def object_prototype_members_def
      null_if_undefined_def js_replace_def
      starts_with_def show_int_def show_nat.simps)

lemma replace_placeholders_missing:
  assumes "(placeholder, correlationKey) \<in> set m"
    and "nullish (getCorrelatedValue store correlationKey JNull)"
  shows "fst (replace_placeholders store url' m) = None"
  using assms
proof (induction m arbitrary: url')
  case Nil
  then show ?case by simp
next
  case (Cons e m)
  obtain p k where e: "e = (p, k)" by (cases e)
  show ?case
  proof (cases "nullish (getCorrelatedValue store k JNull)")
    case True
    then show ?thesis by (simp add: e)
  next
    case False
    with Cons.prems e have "(placeholder, correlationKey) \<in> set m" by auto
    with Cons.IH Cons.prems(2) False show ?thesis by (simp add: e Let_def)
  qed
qed

text \<open>
  The mapping derived from a template maps every placeholder name to itself.
\<close>

lemma obj_set_entries: "set (obj_set kvs k v) \<subseteq> insert (k, v) (set kvs)"
proof (cases "map_of kvs k \<noteq> None")
  case True
  then show ?thesis by (auto simp: obj_set_def split: if_splits)
next
  case False
  have "set (takeWhile P kvs) \<subseteq> set kvs" and "set (dropWhile P kvs) \<subseteq> set kvs" for P
    by (auto dest: set_takeWhileD set_dropWhileD)
  with False show ?thesis by (auto simp: obj_set_def dest: set_takeWhileD set_dropWhileD)
qed

lemma fold_obj_set_identity:
  assumes "\<forall>(p, k) \<in> set m. p = k"
  shows "\<forall>(p, k) \<in> set (fold (\<lambda>q m. obj_set m (f q) (f q)) qs m). p = k"
  using assms
proof (induction qs arbitrary: m)
  case Nil
  then show ?case by simp
next
  case (Cons q qs)
  have "\<forall>(p, k) \<in> set (obj_set m (f q) (f q)). p = k"
    using Cons.prems obj_set_entries [of m "f q" "f q"] by auto
  then show ?case using Cons.IH by simp
qed

lemma derived_mapping_identity:
  assumes "derived_mapping urlTemplate = Some m"
    and "(placeholder, correlationKey) \<in> set m"
  shows "placeholder = correlationKey"
proof -
  from assms(1) obtain p ps
    where m: "m = fold (\<lambda>q m. obj_set m (butlast (tl q)) (butlast (tl q))) (p # ps) []"
    by (auto simp: derived_mapping_def split: list.splits)
  have "\<forall>(p, k) \<in> set m. p = k"
    unfolding m by (rule fold_obj_set_identity) simp
  with assms(2) show ?thesis by auto
qed

text \<open>
  The path example of the specification: on the body \<open>{"a":{"b":[{"c":42}]}}\<close> the
  path \<open>a.b[0].c\<close> yields \<open>42\<close>, and \<open>a.b[5].c\<close>, past the end of the array, yields
  the default.
\<close>

lemma extractJsonValue_example:
  "extractJsonValue (Some nested_response) ''a.b[0].c'' JNull = (JNum 42, [])
   \<and> extractJsonValue (Some nested_response) ''a.b[5].c'' JNull = (JNull, [])"
  by code_simp


section \<open>Properties of the validators\<close>

text \<open>
  C7. The claim is that a response with status 201 and body \<open>{"id":"u1"}\<close> validates
  under the configuration of the scenario. The check of the response time, which the
  comment in the code calls logged but not failed, is one of the checks whose
  conjunction is returned: the same response taking six seconds is rejected.
\<close>

theorem validateResponse_slow_response_fails:
  "fst (validateResponse (Some (user_response 201 6000)) create_user_config no_metrics)
     = Inr False
   \<and> fst (snd (validateResponse (Some (user_response 201 6000)) create_user_config no_metrics))
       = \<lparr>businessErrors = 0, businessErrorRate = [0]\<rparr>"
  by code_simp

text \<open>
  For a response that arrives within five seconds the scenario runs as the claim says:
  status 201 validates and records a \<open>0\<close> on the rate only; status 500 fails and adds
  one to the counter and a \<open>1\<close> to the rate.
\<close>

lemma validateResponse_created:
  "fst (validateResponse (Some (user_response 201 120)) create_user_config no_metrics)
     = Inr True
   \<and> fst (snd (validateResponse (Some (user_response 201 120)) create_user_config no_metrics))
       = \<lparr>businessErrors = 0, businessErrorRate = [0]\<rparr>"
  by code_simp

lemma validateResponse_server_error:
  "fst (validateResponse (Some (user_response 500 120)) create_user_config no_metrics)
     = Inr False
   \<and> fst (snd (validateResponse (Some (user_response 500 120)) create_user_config no_metrics))
       = \<lparr>businessErrors = 1, businessErrorRate = [1]\<rparr>"
  by code_simp

text \<open>
  C10. Without an API name (absent or empty), \<open>validateResponse\<close> logs one error and
  returns false; no check is run and the metrics are unchanged, whatever the response.
\<close>

theorem validateResponse_requires_apiName:
  assumes "missing (apiName cfg)"
  shows "validateResponse resp cfg m =
           (Inr False, m,
            [Console ConsoleError ''[VALIDATION] API name is required for validation'' []])"
  using assms by (simp add: validateResponse_def)

theorem validateResponse_requires_apiName_witness:
  "missing (apiName (create_user_config\<lparr>apiName := None\<rparr>))
   \<and> validateResponse (Some (user_response 500 120)) (create_user_config\<lparr>apiName := None\<rparr>)
        no_metrics =
       (Inr False, no_metrics,
        [Console ConsoleError ''[VALIDATION] API name is required for validation'' []])"
  using validateResponse_requires_apiName
          [of "create_user_config\<lparr>apiName := None\<rparr>" "Some (user_response 500 120)" no_metrics]
  by (simp add: missing_def)

end
